theory Spec2Isabelle
  imports Main "HOL-Library.Word"
begin

unbundle bit_operations_syntax

section \<open>Frames\<close>

type_synonym bytes = "8 word list"

text \<open>
  Modelled from the spec: the frame classes of \<open>pipecat.frames.frames\<close> are imported by
  both source files but are not part of the sources at hand. The spec (section 3) lists the
  kinds: control frames Start, End, EndTask; system frames StartInterruption,
  StopInterruption, UserStartedSpeaking, UserStoppedSpeaking, BotSpeaking; data frames
  AudioRaw (PCM samples, sample rate, channel count) and transcript frames. The
  \<open>isinstance\<close> tests of the source become pattern matching on this closed type (spec,
  section 9). The per-frame sequence identifier plays no part in the code below and is left
  out.
\<close>

datatype frame =
    StartFrame
  | EndFrame
  | EndTaskFrame
  | StartInterruptionFrame
  | StopInterruptionFrame
  | UserStartedSpeakingFrame
  | UserStoppedSpeakingFrame
  | BotSpeakingFrame
  | AudioRawFrame (audio: bytes) (sample_rate: int) (num_channels: int)
  | TranscriptionFrame string

section \<open>Python library functions used by the serializer\<close>

text \<open>
  Python text is modelled as \<open>string\<close>: one \<open>char\<close> per code point, which covers the code
  points below 256. Exceptions are values of type \<open>error\<close>; a function that can raise
  returns \<open>error + 'a\<close>.
\<close>

datatype error =
    JSONDecodeError
  | KeyError string
  | TypeError
  | ValueError
  | BinasciiError
  | AudioopError
  | OverflowError
  | MemoryError
  | RecursionError
  | CancelledError
  | OutsideModel
  | OutOfFuel

datatype json =
    JNull
  | JBool bool
  | JInt int
  | JFloat string
  | JString string
  | JArray "json list"
  | JObject "(string \<times> json) list"

subsection \<open>json.dumps\<close>

definition dquote :: char where
  "dquote = CHR 0x22"

definition backslash :: char where
  "backslash = CHR 0x5C"

definition hex_digit :: "nat \<Rightarrow> char" where
  "hex_digit n = ''0123456789abcdef'' ! (n mod 16)"

text \<open>
  \<open>json.encoder.py_encode_basestring_ascii\<close> (the default \<open>ensure_ascii=True\<close>): the
  characters from space to tilde stand for themselves, except the double quote and the
  backslash; backspace, form feed, newline, carriage return and tab have two-character
  escapes; every other character is written as a \<open>\u\<close> escape with four hexadecimal
  digits.
\<close>

definition escape_char :: "char \<Rightarrow> string" where
  "escape_char c =
     (if c = dquote then [backslash, dquote]
      else if c = backslash then [backslash, backslash]
      else if c = CHR 0x0A then [backslash, CHR ''n'']
      else if c = CHR 0x0D then [backslash, CHR ''r'']
      else if c = CHR 0x09 then [backslash, CHR ''t'']
      else if c = CHR 0x08 then [backslash, CHR ''b'']
      else if c = CHR 0x0C then [backslash, CHR ''f'']
      else if (32::nat) \<le> of_char c \<and> (of_char c :: nat) \<le> 126 then [c]
      else [backslash, CHR ''u'', CHR ''0'', CHR ''0'',
            hex_digit ((of_char c :: nat) div 16), hex_digit (of_char c)])"

definition encode_basestring_ascii :: "string \<Rightarrow> string" where
  "encode_basestring_ascii s = dquote # concat (map escape_char s) @ [dquote]"

fun join :: "string \<Rightarrow> string list \<Rightarrow> string" where
  "join sep [] = []"
| "join sep [x] = x"
| "join sep (x # y # ys) = x @ sep @ join sep (y # ys)"

fun str_nat :: "nat \<Rightarrow> string" where
  "str_nat n =
     (if n < 10 then [hex_digit n] else str_nat (n div 10) @ [hex_digit (n mod 10)])"

definition str_int :: "int \<Rightarrow> string" where
  "str_int i = (if i < 0 then CHR ''-'' # str_nat (nat (- i)) else str_nat (nat i))"

text \<open>
  \<open>json.dumps\<close> with its default separators \<open>", "\<close> and \<open>": "\<close>. Floating-point values
  are outside the model: a float is kept as its literal text.
\<close>

fun json_dumps :: "json \<Rightarrow> string" where
  "json_dumps JNull = ''null''"
| "json_dumps (JBool b) = (if b then ''true'' else ''false'')"
| "json_dumps (JInt i) = str_int i"
| "json_dumps (JFloat lit) = lit"
| "json_dumps (JString s) = encode_basestring_ascii s"
| "json_dumps (JArray xs) = ''['' @ join '', '' (map json_dumps xs) @ '']''"
| "json_dumps (JObject kvs) =
     ''{'' @ join '', '' (map (\<lambda>kv. encode_basestring_ascii (fst kv) @ '': '' @ json_dumps (snd kv)) kvs)
       @ ''}''"

subsection \<open>json.loads\<close>

definition is_whitespace :: "char \<Rightarrow> bool" where
  "is_whitespace c \<longleftrightarrow> c = CHR '' '' \<or> c = CHR 0x09 \<or> c = CHR 0x0A \<or> c = CHR 0x0D"

definition skip_ws :: "string \<Rightarrow> string" where
  "skip_ws s = dropWhile is_whitespace s"

definition is_digit :: "char \<Rightarrow> bool" where
  "is_digit c \<longleftrightarrow> (48::nat) \<le> of_char c \<and> (of_char c :: nat) \<le> 57"

definition hex_value :: "char \<Rightarrow> nat option" where
  "hex_value c =
     (let n = (of_char c :: nat) in
      if 48 \<le> n \<and> n \<le> 57 then Some (n - 48)
      else if 97 \<le> n \<and> n \<le> 102 then Some (n - 87)
      else if 65 \<le> n \<and> n \<le> 70 then Some (n - 55)
      else None)"

definition hex4 :: "char \<Rightarrow> char \<Rightarrow> char \<Rightarrow> char \<Rightarrow> nat option" where
  "hex4 a b c d =
     (case (hex_value a, hex_value b, hex_value c, hex_value d) of
        (Some w, Some x, Some y, Some z) \<Rightarrow> Some (((w * 16 + x) * 16 + y) * 16 + z)
      | _ \<Rightarrow> None)"

definition unescape :: "char \<Rightarrow> char option" where
  "unescape e =
     (if e = dquote then Some dquote
      else if e = backslash then Some backslash
      else if e = CHR ''/'' then Some CHR ''/''
      else if e = CHR ''b'' then Some (CHR 0x08)
      else if e = CHR ''f'' then Some (CHR 0x0C)
      else if e = CHR ''n'' then Some (CHR 0x0A)
      else if e = CHR ''r'' then Some (CHR 0x0D)
      else if e = CHR ''t'' then Some (CHR 0x09)
      else None)"

text \<open>
  \<open>scanstring\<close> (strict mode) reads the text after an opening quote up to the closing
  quote and returns the string with the rest of the input. A raw control character, an
  unknown escape and a missing closing quote are decode errors. A \<open>\u\<close> escape of a code
  point from 256 on has no \<open>char\<close>; the model answers \<open>OutsideModel\<close> there.
\<close>

fun scanstring :: "string \<Rightarrow> string \<Rightarrow> error + (string \<times> string)" where
  "scanstring [] acc = Inl JSONDecodeError"
| "scanstring (c # cs) acc =
     (if c = dquote then Inr (acc, cs)
      else if c = backslash then
        (case cs of
           [] \<Rightarrow> Inl JSONDecodeError
         | e # cs' \<Rightarrow>
             if e = CHR ''u'' then
               (case cs' of
                  h1 # h2 # h3 # h4 # rest \<Rightarrow>
                    (case hex4 h1 h2 h3 h4 of
                       None \<Rightarrow> Inl JSONDecodeError
                     | Some n \<Rightarrow>
                         if n < 256 then scanstring rest (acc @ [char_of n])
                         else Inl OutsideModel)
                | _ \<Rightarrow> Inl JSONDecodeError)
             else
               (case unescape e of
                  None \<Rightarrow> Inl JSONDecodeError
                | Some ch \<Rightarrow> scanstring cs' (acc @ [ch])))
      else if (of_char c :: nat) < 32 then Inl JSONDecodeError
      else scanstring cs (acc @ [c]))"

definition digit_value :: "char \<Rightarrow> nat" where
  "digit_value c = of_char c - 48"

definition int_of_digits :: "string \<Rightarrow> int" where
  "int_of_digits ds = int (foldl (\<lambda>n d. 10 * n + digit_value d) 0 ds)"

text \<open>
  The number scanner: an optional minus sign, then \<open>0\<close> or a digit from 1 to 9 followed by
  digits, then an optional fraction (a dot and at least one digit) and an optional exponent
  (\<open>e\<close> or \<open>E\<close>, an optional sign, at least one digit). Without fraction and exponent the
  value is the integer; otherwise it is a float, kept as its literal text. The result is
  \<open>None\<close> where no number starts.
\<close>

definition match_number :: "string \<Rightarrow> (json \<times> string) option" where
  "match_number s =
     (let (sign, s1) = (case s of c # cs \<Rightarrow> if c = CHR ''-'' then (''-'', cs) else ([], s) | [] \<Rightarrow> ([], s))
      in case s1 of
           [] \<Rightarrow> None
         | d # ds \<Rightarrow>
             if \<not> is_digit d then None
             else
               (let (ipart, s2) = (if d = CHR ''0'' then ([d], ds)
                                   else (d # takeWhile is_digit ds, dropWhile is_digit ds));
                    (frac, s3) = (case s2 of
                                    p # f # fs \<Rightarrow>
                                      if p = CHR ''.'' \<and> is_digit f
                                      then (p # f # takeWhile is_digit fs, dropWhile is_digit fs)
                                      else ([], s2)
                                  | _ \<Rightarrow> ([], s2));
                    (ex, s4) = (case s3 of
                                  e # es \<Rightarrow>
                                    if e = CHR ''e'' \<or> e = CHR ''E'' then
                                      (let (sg, es') = (case es of
                                                          g # gs \<Rightarrow> if g = CHR ''+'' \<or> g = CHR ''-''
                                                                    then ([g], gs) else ([], es)
                                                        | [] \<Rightarrow> ([], es))
                                       in case es' of
                                            x # xs \<Rightarrow>
                                              if is_digit x
                                              then (e # sg @ x # takeWhile is_digit xs,
                                                    dropWhile is_digit xs)
                                              else ([], s3)
                                          | [] \<Rightarrow> ([], s3))
                                    else ([], s3)
                                | [] \<Rightarrow> ([], s3))
                in if frac = [] \<and> ex = []
                   then Some (JInt ((if sign = [] then 1 else - 1) * int_of_digits ipart), s4)
                   else Some (JFloat (sign @ ipart @ frac @ ex), s4)))"

definition strip_prefix :: "string \<Rightarrow> string \<Rightarrow> string option" where
  "strip_prefix p s = (if take (length p) s = p then Some (drop (length p) s) else None)"

text \<open>
  A Python \<open>dict\<close> built from a list of pairs: a repeated key keeps its first position and
  takes the last value.
\<close>

fun dict_set :: "(string \<times> json) list \<Rightarrow> string \<Rightarrow> json \<Rightarrow> (string \<times> json) list" where
  "dict_set [] k v = [(k, v)]"
| "dict_set ((k', v') # kvs) k v =
     (if k' = k then (k, v) # kvs else (k', v') # dict_set kvs k v)"

definition dict :: "(string \<times> json) list \<Rightarrow> (string \<times> json) list" where
  "dict pairs = foldl (\<lambda>d kv. dict_set d (fst kv) (snd kv)) [] pairs"

text \<open>
  The scanner \<open>scan_once\<close> with the array and object loops of the decoder. Their
  recursion is bounded by a fuel argument: every call uses one unit, and a value or an
  element takes at least one character, so twice the length of the text is enough.
\<close>

fun scan_once :: "nat \<Rightarrow> string \<Rightarrow> error + (json \<times> string)"
  and JSONArray :: "nat \<Rightarrow> json list \<Rightarrow> string \<Rightarrow> error + (json \<times> string)"
  and JSONObject :: "nat \<Rightarrow> (string \<times> json) list \<Rightarrow> string \<Rightarrow> error + (json \<times> string)"
where
  "scan_once 0 s = Inl OutOfFuel"
| "scan_once (Suc n) s =
     (case s of
        [] \<Rightarrow> Inl JSONDecodeError
      | c # cs \<Rightarrow>
          if c = dquote then
            (case scanstring cs [] of
               Inl e \<Rightarrow> Inl e
             | Inr (str, rest) \<Rightarrow> Inr (JString str, rest))
          else if c = CHR ''{'' then
            (case skip_ws cs of
               [] \<Rightarrow> Inl JSONDecodeError
             | d # rest \<Rightarrow>
                 if d = CHR ''}'' then Inr (JObject (dict []), rest)
                 else if d = dquote then JSONObject n [] rest
                 else Inl JSONDecodeError)
          else if c = CHR ''['' then
            (case skip_ws cs of
               [] \<Rightarrow> Inl JSONDecodeError
             | d # rest \<Rightarrow>
                 if d = CHR '']'' then Inr (JArray [], rest)
                 else JSONArray n [] (d # rest))
          else
            (case strip_prefix ''null'' s of Some rest \<Rightarrow> Inr (JNull, rest) | None \<Rightarrow>
             case strip_prefix ''true'' s of Some rest \<Rightarrow> Inr (JBool True, rest) | None \<Rightarrow>
             case strip_prefix ''false'' s of Some rest \<Rightarrow> Inr (JBool False, rest) | None \<Rightarrow>
             case strip_prefix ''NaN'' s of Some rest \<Rightarrow> Inr (JFloat ''NaN'', rest) | None \<Rightarrow>
             case strip_prefix ''Infinity'' s of Some rest \<Rightarrow> Inr (JFloat ''Infinity'', rest) | None \<Rightarrow>
             case strip_prefix ''-Infinity'' s of Some rest \<Rightarrow> Inr (JFloat ''-Infinity'', rest) | None \<Rightarrow>
             case match_number s of Some r \<Rightarrow> Inr r | None \<Rightarrow> Inl JSONDecodeError))"
| "JSONArray 0 vs s = Inl OutOfFuel"
| "JSONArray (Suc n) vs s =
     (case scan_once n s of
        Inl e \<Rightarrow> Inl e
      | Inr (v, rest) \<Rightarrow>
          (case skip_ws rest of
             [] \<Rightarrow> Inl JSONDecodeError
           | d # rest' \<Rightarrow>
               if d = CHR '']'' then Inr (JArray (vs @ [v]), rest')
               else if d = CHR '','' then JSONArray n (vs @ [v]) (skip_ws rest')
               else Inl JSONDecodeError))"
| "JSONObject 0 pairs s = Inl OutOfFuel"
| "JSONObject (Suc n) pairs s =
     (case scanstring s [] of
        Inl e \<Rightarrow> Inl e
      | Inr (key, rest) \<Rightarrow>
          (case skip_ws rest of
             [] \<Rightarrow> Inl JSONDecodeError
           | c # rest1 \<Rightarrow>
               if c \<noteq> CHR '':'' then Inl JSONDecodeError
               else
                 (case scan_once n (skip_ws rest1) of
                    Inl e \<Rightarrow> Inl e
                  | Inr (v, rest2) \<Rightarrow>
                      (case skip_ws rest2 of
                         [] \<Rightarrow> Inl JSONDecodeError
                       | d # rest3 \<Rightarrow>
                           if d = CHR ''}'' then Inr (JObject (dict (pairs @ [(key, v)])), rest3)
                           else if d = CHR '','' then
                             (case skip_ws rest3 of
                                [] \<Rightarrow> Inl JSONDecodeError
                              | q # rest4 \<Rightarrow>
                                  if q = dquote then JSONObject n (pairs @ [(key, v)]) rest4
                                  else Inl JSONDecodeError)
                           else Inl JSONDecodeError))))"

text \<open>
  \<open>json.loads\<close> on text: white space, one value, white space, and nothing more.
\<close>

definition json_loads :: "string \<Rightarrow> error + json" where
  "json_loads s =
     (case scan_once (2 * length s + 2) (skip_ws s) of
        Inl e \<Rightarrow> Inl e
      | Inr (obj, rest) \<Rightarrow> if skip_ws rest = [] then Inr obj else Inl JSONDecodeError)"

subsection \<open>base64.b64encode\<close>

definition table_b2a_base64 :: string where
  "table_b2a_base64 = ''ABCDEFGHIJKLMNOPQRSTUVWXYZabcdefghijklmnopqrstuvwxyz0123456789+/''"

definition b2a :: "8 word \<Rightarrow> char" where
  "b2a w = table_b2a_base64 ! unat (w AND 0x3F)"

fun b64encode :: "bytes \<Rightarrow> string" where
  "b64encode [] = []"
| "b64encode [a] =
     [b2a (drop_bit 2 a), b2a (push_bit 4 (a AND 0x03)), CHR ''='', CHR ''='']"
| "b64encode [a, b] =
     [b2a (drop_bit 2 a), b2a (push_bit 4 (a AND 0x03) OR drop_bit 4 b),
      b2a (push_bit 2 (b AND 0x0F)), CHR ''='']"
| "b64encode (a # b # c # rest) =
     [b2a (drop_bit 2 a), b2a (push_bit 4 (a AND 0x03) OR drop_bit 4 b),
      b2a (push_bit 2 (b AND 0x0F) OR drop_bit 6 c), b2a (c AND 0x3F)] @ b64encode rest"

subsection \<open>base64.b64decode\<close>

definition table_a2b_base64 :: "char \<Rightarrow> 8 word option" where
  "table_a2b_base64 c =
     (let n = (of_char c :: nat) in
      if 65 \<le> n \<and> n \<le> 90 then Some (of_nat (n - 65))
      else if 97 \<le> n \<and> n \<le> 122 then Some (of_nat (n - 71))
      else if 48 \<le> n \<and> n \<le> 57 then Some (of_nat (n + 4))
      else if c = CHR ''+'' then Some 62
      else if c = CHR ''/'' then Some 63
      else None)"

text \<open>
  The loop of \<open>binascii.a2b_base64\<close> without strict mode, as \<open>base64.b64decode\<close> calls it
  (\<open>validate=False\<close>). The state is the position in the current group of four
  (\<open>quad_pos\<close>), the bits left over from the previous character (\<open>leftchar\<close>) and the
  count of padding characters seen (\<open>pads\<close>). Characters outside the alphabet are skipped;
  a padding character that completes a group ends the decoding; input that ends inside a
  group is an error.
\<close>

fun a2b_base64 :: "nat \<Rightarrow> 8 word \<Rightarrow> nat \<Rightarrow> bytes \<Rightarrow> string \<Rightarrow> error + bytes" where
  "a2b_base64 quad_pos leftchar pads bin_data [] =
     (if quad_pos \<noteq> 0 then Inl BinasciiError else Inr bin_data)"
| "a2b_base64 quad_pos leftchar pads bin_data (ch # rest) =
     (if ch = CHR ''='' then
        (if quad_pos \<ge> 2 \<and> quad_pos + (pads + 1) \<ge> 4 then Inr bin_data
         else a2b_base64 quad_pos leftchar (if quad_pos \<ge> 2 then pads + 1 else pads) bin_data rest)
      else
        (case table_a2b_base64 ch of
           None \<Rightarrow> a2b_base64 quad_pos leftchar pads bin_data rest
         | Some this_ch \<Rightarrow>
             if quad_pos = 0 then a2b_base64 1 this_ch 0 bin_data rest
             else if quad_pos = 1 then
               a2b_base64 2 (this_ch AND 0x0F) 0
                 (bin_data @ [push_bit 2 leftchar OR drop_bit 4 this_ch]) rest
             else if quad_pos = 2 then
               a2b_base64 3 (this_ch AND 0x03) 0
                 (bin_data @ [push_bit 4 leftchar OR drop_bit 2 this_ch]) rest
             else
               a2b_base64 0 0 0 (bin_data @ [push_bit 6 leftchar OR this_ch]) rest))"

text \<open>
  \<open>base64.b64decode\<close> of a Python value: text must be ASCII (\<open>ValueError\<close> otherwise) and
  is then decoded; a value that is not text is a \<open>TypeError\<close>.
\<close>

definition b64decode :: "json \<Rightarrow> error + bytes" where
  "b64decode s =
     (case s of
        JString txt \<Rightarrow>
          if list_ex (\<lambda>c. (of_char c :: nat) \<ge> 128) txt then Inl ValueError
          else a2b_base64 0 0 0 [] txt
      | _ \<Rightarrow> Inl TypeError)"

subsection \<open>Subscription\<close>

text \<open>
  \<open>obj[key]\<close> with a text key: a \<open>dict\<close> answers with the value or raises \<open>KeyError\<close>;
  every other JSON value (list, text, number, boolean, \<open>None\<close>) raises \<open>TypeError\<close>.
\<close>

definition getitem :: "json \<Rightarrow> string \<Rightarrow> error + json" where
  "getitem obj key =
     (case obj of
        JObject kvs \<Rightarrow> (case map_of kvs key of None \<Rightarrow> Inl (KeyError key) | Some v \<Rightarrow> Inr v)
      | _ \<Rightarrow> Inl TypeError)"

section \<open>pipecat.audio.utils\<close>

text \<open>
  Modelled from the spec: \<open>pcm_to_ulaw\<close> and \<open>ulaw_to_pcm\<close> of \<open>pipecat.audio.utils\<close> are not
  part of the sources at hand. By the spec (sections 4.6 and 6) they transcode between
  linear PCM at a sample rate and the logarithmic companding of the wire. They are
  modelled as the calls of Python's \<open>audioop\<close> that do this for 16-bit mono audio:
  \<open>ratecv\<close> for the sample rate, without filter state, and \<open>lin2ulaw\<close> and \<open>ulaw2lin\<close> for
  G.711 mu-law, each with the errors it raises.
\<close>

definition sample16 :: "8 word \<Rightarrow> 8 word \<Rightarrow> int" where
  "sample16 lo hi =
     (let v = uint lo + 256 * uint hi in if v \<ge> 32768 then v - 65536 else v)"

fun samples16 :: "bytes \<Rightarrow> int list" where
  "samples16 (lo # hi # rest) = sample16 lo hi # samples16 rest"
| "samples16 [lo] = []"
| "samples16 [] = []"

definition bytes16 :: "int \<Rightarrow> bytes" where
  "bytes16 v = [of_int (v mod 256), of_int (v div 256)]"

function bitlen :: "int \<Rightarrow> nat" where
  "bitlen n = (if n \<le> 0 then 0 else Suc (bitlen (n div 2)))"
  by pat_completeness auto
termination
  by (relation "measure nat") auto

text \<open>
  The C expression \<open>(int)((double)n / (double)b)\<close> for a positive \<open>b\<close> and operands that
  doubles hold exactly: the quotient is rounded to the nearest double, ties to the even
  mantissa of 53 bits, and then truncated towards zero. \<open>e\<close> is the binary exponent of the
  quotient, \<open>m\<close> its rounded mantissa.
\<close>

definition double_div_trunc :: "int \<Rightarrow> int \<Rightarrow> int" where
  "double_div_trunc n b =
     (if n = 0 then 0
      else
        (let a = \<bar>n\<bar>;
             k = int (bitlen a) - int (bitlen b);
             e = (if k \<ge> 0
                  then (if a \<ge> b * 2 ^ nat k then k else k - 1)
                  else (if a * 2 ^ nat (- k) \<ge> b then k else k - 1));
             num = a * 2 ^ nat (52 - e);
             q = num div b;
             r = num mod b;
             m = (if 2 * r < b then q else if 2 * r > b then q + 1
                  else if even q then q else q + 1)
         in sgn n * (m div 2 ^ nat (52 - e))))"

text \<open>
  The loop of \<open>audioop.ratecv\<close> for one channel: while \<open>d\<close> is negative the next input
  sample is read, scaled to 32 bits; while \<open>d\<close> is not negative an output sample is
  interpolated between the last two input samples and scaled back to 16 bits. The loop
  ends when a sample is wanted and none is left.
\<close>

function ratecv_loop ::
  "int \<Rightarrow> int \<Rightarrow> int list \<Rightarrow> int \<Rightarrow> int \<Rightarrow> int \<Rightarrow> int list \<Rightarrow> int list" where
  "ratecv_loop inrate outrate samples d prev_i cur_i out =
     (if d < 0 then
        (case samples of
           [] \<Rightarrow> out
         | s # rest \<Rightarrow> ratecv_loop inrate outrate rest (d + outrate) cur_i (s * 65536) out)
      else if inrate \<le> 0 then out
      else
        ratecv_loop inrate outrate samples (d - inrate) prev_i cur_i
          (out @ [double_div_trunc (prev_i * d + cur_i * (outrate - d)) outrate div 65536]))"
  by pat_completeness auto
termination
  by (relation "measures [\<lambda>(inrate, outrate, samples, d, prev_i, cur_i, out). length samples,
                          \<lambda>(inrate, outrate, samples, d, prev_i, cur_i, out). nat (d + 1)]")
    auto

definition c_int :: "int \<Rightarrow> bool" where
  "c_int v \<longleftrightarrow> - (2 ^ 31) \<le> v \<and> v < 2 ^ 31"

text \<open>
  \<open>audioop.ratecv(fragment, 2, 1, inrate, outrate, None)[0]\<close>. The rates are C integers;
  the fragment must hold whole samples and the rates must be positive; the rates are
  divided by their greatest common divisor; the size computed for the output buffer must
  fit a signed 64-bit size.
\<close>

definition ratecv :: "bytes \<Rightarrow> int \<Rightarrow> int \<Rightarrow> error + bytes" where
  "ratecv fragment inrate outrate =
     (if \<not> (c_int inrate \<and> c_int outrate) then Inl OverflowError
      else if length fragment mod 2 \<noteq> 0 then Inl AudioopError
      else if inrate \<le> 0 \<or> outrate \<le> 0 then Inl AudioopError
      else
        (let g = gcd inrate outrate;
             i = inrate div g;
             r = outrate div g;
             len = int (length fragment) div 2
         in if len \<noteq> 0 \<and> r > (2 ^ 63 - 1) div (1 + (len - 1) div i) div 2
            then Inl MemoryError
            else Inr (concat (map bytes16 (ratecv_loop i r (samples16 fragment) (- r) 0 0 [])))))"

definition seg_uend :: "int list" where
  "seg_uend = [0x3F, 0x7F, 0xFF, 0x1FF, 0x3FF, 0x7FF, 0xFFF, 0x1FFF]"

definition search :: "int \<Rightarrow> int list \<Rightarrow> nat" where
  "search val table = length (takeWhile (\<lambda>e. e < val) table)"

definition st_14linear2ulaw :: "int \<Rightarrow> 8 word" where
  "st_14linear2ulaw pcm_val =
     (let mask = (if pcm_val < 0 then 0x7F else 0xFF :: 8 word);
          mag = min \<bar>pcm_val\<bar> 8159 + 33;
          seg = search mag seg_uend
      in if seg \<ge> 8 then 0x7F XOR mask
         else (push_bit 4 (of_nat seg) OR (of_int (mag div 2 ^ (seg + 1)) AND 0x0F)) XOR mask)"

definition st_ulaw2linear16 :: "8 word \<Rightarrow> int" where
  "st_ulaw2linear16 u_val =
     (let u = NOT u_val;
          t = (uint (u AND 0x0F) * 8 + 0x84) * 2 ^ unat (drop_bit 4 (u AND 0x70))
      in if u AND 0x80 \<noteq> 0 then 0x84 - t else t - 0x84)"

text \<open>\<open>audioop.lin2ulaw(fragment, 2)\<close> and \<open>audioop.ulaw2lin(fragment, 2)\<close>.\<close>

definition lin2ulaw :: "bytes \<Rightarrow> error + bytes" where
  "lin2ulaw fragment =
     (if length fragment mod 2 \<noteq> 0 then Inl AudioopError
      else Inr (map (\<lambda>s. st_14linear2ulaw (s div 4)) (samples16 fragment)))"

definition ulaw2lin :: "bytes \<Rightarrow> bytes" where
  "ulaw2lin fragment = concat (map (\<lambda>u. bytes16 (st_ulaw2linear16 u)) fragment)"

definition pcm_to_ulaw :: "bytes \<Rightarrow> int \<Rightarrow> int \<Rightarrow> error + bytes" where
  "pcm_to_ulaw pcm_bytes in_sample_rate out_sample_rate =
     (case ratecv pcm_bytes in_sample_rate out_sample_rate of
        Inl e \<Rightarrow> Inl e
      | Inr in_pcm_bytes \<Rightarrow> lin2ulaw in_pcm_bytes)"

definition ulaw_to_pcm :: "bytes \<Rightarrow> int \<Rightarrow> int \<Rightarrow> error + bytes" where
  "ulaw_to_pcm ulaw_bytes in_sample_rate out_sample_rate =
     ratecv (ulaw2lin ulaw_bytes) in_sample_rate out_sample_rate"

section \<open>ExotelFrameSerializer\<close>

record input_params =
  params_sample_rate :: int

definition InputParams :: input_params where
  "InputParams = \<lparr>params_sample_rate = 8000\<rparr>"

record exotel_frame_serializer =
  stream_sid :: string
  params :: input_params

text \<open>
  \<open>serialize\<close> and \<open>deserialize\<close> have no exception handler: whatever \<open>pcm_to_ulaw\<close>,
  \<open>json.loads\<close>, a subscription, \<open>base64.b64decode\<close> or \<open>ulaw_to_pcm\<close> raises reaches the
  caller.
\<close>

definition serialize :: "exotel_frame_serializer \<Rightarrow> frame \<Rightarrow> error + string option" where
  "serialize self frame =
     (case frame of
        AudioRawFrame data rate channels \<Rightarrow>
          (case pcm_to_ulaw data rate (params_sample_rate (params self)) of
             Inl e \<Rightarrow> Inl e
           | Inr serialized_data \<Rightarrow>
               (let payload = b64encode serialized_data;
                    answer = JObject [(''event'', JString ''media''),
                                      (''streamSid'', JString (stream_sid self)),
                                      (''media'', JObject [(''payload'', JString payload)])]
                in Inr (Some (json_dumps answer))))
      | StartInterruptionFrame \<Rightarrow>
          (let answer = JObject [(''event'', JString ''clear''),
                                 (''streamSid'', JString (stream_sid self))]
           in Inr (Some (json_dumps answer)))
      | _ \<Rightarrow> Inr None)"

definition deserialize :: "exotel_frame_serializer \<Rightarrow> string \<Rightarrow> error + frame option" where
  "deserialize self data =
     (case json_loads data of
        Inl e \<Rightarrow> Inl e
      | Inr message \<Rightarrow>
          (case getitem message ''event'' of
             Inl e \<Rightarrow> Inl e
           | Inr event \<Rightarrow>
               if event \<noteq> JString ''media'' then Inr None
               else
                 (case getitem message ''media'' of
                    Inl e \<Rightarrow> Inl e
                  | Inr media \<Rightarrow>
                      (case getitem media ''payload'' of
                         Inl e \<Rightarrow> Inl e
                       | Inr payload_base64 \<Rightarrow>
                           (case b64decode payload_base64 of
                              Inl e \<Rightarrow> Inl e
                            | Inr payload \<Rightarrow>
                                (case ulaw_to_pcm payload (params_sample_rate (params self))
                                        (params_sample_rate (params self)) of
                                   Inl e \<Rightarrow> Inl e
                                 | Inr deserialized_data \<Rightarrow>
                                     (let audio_frame =
                                            AudioRawFrame deserialized_data
                                              (params_sample_rate (params self)) 1
                                      in Inr (Some audio_frame))))))))"

section \<open>UserIdleProcessor\<close>

datatype frame_direction = DOWNSTREAM | UPSTREAM

text \<open>
  The idle task is the coroutine \<open>_idle_task_handler\<close> run as an \<open>asyncio\<close> task. It is
  \<open>Created\<close> from \<open>create_task\<close> until the event loop gives it its first step, \<open>Waiting\<close>
  while suspended in \<open>asyncio.wait_for(self._idle_event.wait(), timeout=self._timeout)\<close>,
  \<open>Finished\<close> once the coroutine has returned and \<open>Cancelled\<close> once it has ended with
  \<open>CancelledError\<close>.
\<close>

datatype task_state = Created | Waiting | Finished | Cancelled

text \<open>
  One point of \<open>asyncio\<close> differs between versions of Python and shows in the code's
  behaviour. When a task suspended in \<open>wait_for\<close> is cancelled in the same turn of the
  event loop in which the awaited event was set, \<open>wait_for\<close> up to Python 3.11 returns the
  result of the wait and the cancellation is lost; from Python 3.12 on it raises
  \<open>CancelledError\<close>.
\<close>

datatype python = Python_3_11 | Python_3_12

text \<open>
  The attributes of the processor, and with them what an observer sees of it: the frames
  handed to \<open>push_frame\<close> and the times at which the callback was called. Time is counted
  in ticks of the event loop's clock; \<open>waited\<close> is the time the pending \<open>wait_for\<close> has
  been waiting, \<open>must_cancel\<close> is the cancellation request that \<open>Task.cancel\<close> leaves for
  the task's next step, \<open>python\<close> is the interpreter the processor runs on.
\<close>

record user_idle_processor =
  running :: bool
  timeout :: nat
  interrupted :: bool
  idle_event :: bool
  idle_task :: task_state
  must_cancel :: bool
  waited :: nat
  clock :: nat
  callback_times :: "nat list"
  pushed :: "(frame \<times> frame_direction) list"
  python :: python

text \<open>\<open>__init__\<close> with \<open>_create_idle_task\<close>: a fresh event and a task that has not run yet.\<close>

definition UserIdleProcessor :: "python \<Rightarrow> nat \<Rightarrow> user_idle_processor" where
  "UserIdleProcessor py t =
     \<lparr>running = True, timeout = t, interrupted = False, idle_event = False,
      idle_task = Created, must_cancel = False, waited = 0, clock = 0,
      callback_times = [], pushed = [], python = py\<rparr>"

text \<open>
  The callback is supplied by the user of the class. The model records the call and
  takes the callback to return without touching the processor.
\<close>

definition callback :: "user_idle_processor \<Rightarrow> user_idle_processor" where
  "callback s = s\<lparr>callback_times := callback_times s @ [clock s]\<rparr>"

text \<open>
  \<open>_idle_task_handler\<close>, cut at its one suspension point. \<open>loop_head\<close> is the test of
  \<open>while self._running\<close>: the task either suspends in a new \<open>wait_for\<close> or returns.
  \<open>resume\<close> is the rest of the loop body from the point where \<open>wait_for\<close> ends: with the
  event set (\<open>Woken\<close>), with \<open>TimeoutError\<close> (\<open>TimedOut\<close>) or with \<open>CancelledError\<close>
  (\<open>Interrupted\<close>); the \<open>finally\<close> clause clears the event in all three cases.
\<close>

datatype wakeup = Woken | TimedOut | Interrupted

definition loop_head :: "user_idle_processor \<Rightarrow> user_idle_processor" where
  "loop_head s =
     (if running s then s\<lparr>idle_task := Waiting, waited := 0\<rparr>
      else s\<lparr>idle_task := Finished\<rparr>)"

definition resume :: "wakeup \<Rightarrow> user_idle_processor \<Rightarrow> user_idle_processor" where
  "resume w s =
     (case w of
        Woken \<Rightarrow> loop_head (s\<lparr>idle_event := False\<rparr>)
      | TimedOut \<Rightarrow>
          loop_head ((if \<not> interrupted s then callback s else s)\<lparr>idle_event := False\<rparr>)
      | Interrupted \<Rightarrow> s\<lparr>idle_event := False, idle_task := Finished\<rparr>)"

text \<open>
  One turn of the event loop for the idle task. A task with a cancellation request gets
  \<open>CancelledError\<close> thrown in at its next step: a task that never ran ends as cancelled
  without entering the coroutine, a waiting task resumes in its \<open>except\<close> clause; up to
  Python 3.11 a waiting task whose event is set as well resumes with the result of the
  wait instead, and the request is gone. Otherwise a waiting task resumes when the event
  is set or when the timeout has passed, and a new task starts the loop.
\<close>

definition run_idle_task :: "user_idle_processor \<Rightarrow> user_idle_processor" where
  "run_idle_task s =
     (case idle_task s of
        Created \<Rightarrow>
          if must_cancel s then s\<lparr>idle_task := Cancelled, must_cancel := False\<rparr>
          else loop_head s
      | Waiting \<Rightarrow>
          if must_cancel s then
            (if idle_event s \<and> python s = Python_3_11
             then resume Woken (s\<lparr>must_cancel := False\<rparr>)
             else resume Interrupted (s\<lparr>must_cancel := False\<rparr>))
          else if idle_event s then resume Woken s
          else if timeout s \<le> waited s then resume TimedOut s
          else s
      | Finished \<Rightarrow> s
      | Cancelled \<Rightarrow> s)"

text \<open>
  What a caller sees of an awaited call: it returned, it raised, or the caller stays
  suspended.
\<close>

datatype outcome = Returned | Raised error | Pending

text \<open>\<open>self._idle_task.cancel()\<close>: a request, and only for a task that is not done.\<close>

definition cancel :: "user_idle_processor \<Rightarrow> user_idle_processor" where
  "cancel s =
     (case idle_task s of
        Created \<Rightarrow> s\<lparr>must_cancel := True\<rparr>
      | Waiting \<Rightarrow> s\<lparr>must_cancel := True\<rparr>
      | Finished \<Rightarrow> s
      | Cancelled \<Rightarrow> s)"

text \<open>
  \<open>await self._idle_task\<close>: a task that is done answers at once, a task that is not done
  gets its turn first. Awaiting a finished task returns, awaiting a cancelled task raises
  \<open>CancelledError\<close>, and the caller stays suspended while the task is not done.
\<close>

definition await_idle_task :: "user_idle_processor \<Rightarrow> outcome \<times> user_idle_processor" where
  "await_idle_task s =
     (let s' = run_idle_task s in
      case idle_task s' of
        Finished \<Rightarrow> (Returned, s')
      | Cancelled \<Rightarrow> (Raised CancelledError, s')
      | Created \<Rightarrow> (Pending, s')
      | Waiting \<Rightarrow> (Pending, s'))"

definition cleanup :: "user_idle_processor \<Rightarrow> outcome \<times> user_idle_processor" where
  "cleanup s = await_idle_task (cancel s)"

text \<open>
  Modelled from the spec: \<open>FrameProcessor.push_frame\<close> of
  \<open>pipecat.processors.frame_processor\<close> is not part of the sources at hand. By the spec
  (section 4.1) it places the frame on the neighbour's input path for the direction; the
  model records the frame. \<open>super().process_frame\<close> of the same class reads and writes none
  of the attributes above and is left out.
\<close>

definition push_frame ::
  "user_idle_processor \<Rightarrow> frame \<Rightarrow> frame_direction \<Rightarrow> user_idle_processor" where
  "push_frame s frame direction = s\<lparr>pushed := pushed s @ [(frame, direction)]\<rparr>"

definition process_frame ::
  "user_idle_processor \<Rightarrow> frame \<Rightarrow> frame_direction \<Rightarrow> outcome \<times> user_idle_processor" where
  "process_frame s frame direction =
     (let (r, s1) = (if frame = EndFrame \<or> frame = EndTaskFrame
                     then cleanup (s\<lparr>running := False, idle_event := True\<rparr>)
                     else (Returned, s))
      in if r \<noteq> Returned then (r, s1)
         else
           (let s2 = push_frame s1 frame direction
            in if running s2 then
                 (if frame = UserStartedSpeakingFrame
                  then (Returned, s2\<lparr>interrupted := True, idle_event := True\<rparr>)
                  else if frame = UserStoppedSpeakingFrame
                  then (Returned, s2\<lparr>interrupted := False, idle_event := True\<rparr>)
                  else if frame = BotSpeakingFrame
                  then (Returned, s2\<lparr>idle_event := True\<rparr>)
                  else (Returned, s2))
               else (Returned, s2)))"

text \<open>
  A run of the processor is a list of events: a frame arrives and is processed, or the
  clock advances by one tick. After each event the event loop gives the idle task its
  turn.
\<close>

datatype event = Frame frame frame_direction | Tick

fun step :: "user_idle_processor \<Rightarrow> event \<Rightarrow> user_idle_processor" where
  "step s (Frame frame direction) = run_idle_task (snd (process_frame s frame direction))"
| "step s Tick = run_idle_task (s\<lparr>clock := clock s + 1, waited := waited s + 1\<rparr>)"

definition run :: "user_idle_processor \<Rightarrow> event list \<Rightarrow> user_idle_processor" where
  "run s evs = foldl step s evs"

text \<open>The activity frames, and the processor after its end: not running, idle task done.\<close>

definition activity :: "frame \<Rightarrow> bool" where
  "activity f \<longleftrightarrow>
     f = UserStartedSpeakingFrame \<or> f = UserStoppedSpeakingFrame \<or> f = BotSpeakingFrame"

definition stopped :: "user_idle_processor \<Rightarrow> bool" where
  "stopped s \<longleftrightarrow> \<not> running s \<and> (idle_task s = Finished \<or> idle_task s = Cancelled)"

section \<open>Properties of the serializer\<close>

text \<open>
  C1. A StartInterruption frame serializes to the clear-event envelope with the stream
  identifier the serializer was constructed with: the result is \<open>json.dumps\<close> of the object
  with exactly the two members \<open>event = "clear"\<close> and \<open>streamSid = stream_sid\<close>, in this
  order; as text this is the envelope below, with the identifier written as a JSON string.
\<close>

theorem serialize_start_interruption:
  \<open>serialize self StartInterruptionFrame =
     Inr (Some (json_dumps (JObject [(''event'', JString ''clear''),
                                     (''streamSid'', JString (stream_sid self))])))
   \<and> serialize self StartInterruptionFrame =
     Inr (Some (''{"event": "clear", "streamSid": '' @ encode_basestring_ascii (stream_sid self)
                 @ ''}''))\<close>
  by (simp add: serialize_def encode_basestring_ascii_def escape_char_def dquote_def
      backslash_def)

theorem serialize_start_interruption_witness:
  \<open>serialize \<lparr>stream_sid = ''CA12'', params = InputParams\<rparr> StartInterruptionFrame =
     Inr (Some ''{"event": "clear", "streamSid": "CA12"}'')\<close>
  using serialize_start_interruption [of "\<lparr>stream_sid = ''CA12'', params = InputParams\<rparr>"]
  by (simp add: encode_basestring_ascii_def escape_char_def dquote_def backslash_def)







text \<open>
  C10. A frame that is neither an AudioRaw frame nor a StartInterruption frame serializes
  to \<open>None\<close>. \<open>serialize\<close> reads the serializer and assigns to none of its attributes: it is
  a function of the serializer and the frame, so the serializer is the same afterwards.
\<close>

theorem serialize_other_frame:
  "(\<forall>data rate channels. frame \<noteq> AudioRawFrame data rate channels)
   \<Longrightarrow> frame \<noteq> StartInterruptionFrame
   \<Longrightarrow> serialize self frame = Inr None"
  by (cases frame) (simp_all add: serialize_def)

theorem serialize_other_frame_witness:
  "(\<forall>data rate channels. EndFrame \<noteq> AudioRawFrame data rate channels)
   \<and> EndFrame \<noteq> StartInterruptionFrame
   \<and> serialize \<lparr>stream_sid = ''S'', params = InputParams\<rparr> EndFrame = Inr None"
  using serialize_other_frame [of EndFrame "\<lparr>stream_sid = ''S'', params = InputParams\<rparr>"]
  by simp

section \<open>Properties of the idle watchdog\<close>

lemmas watchdog_defs = process_frame_def cleanup_def await_idle_task_def cancel_def
  run_idle_task_def resume_def loop_head_def push_frame_def callback_def Let_def

lemma cleanup_ends_task:
  "fst (cleanup s) \<noteq> Pending
   \<Longrightarrow> idle_task (snd (cleanup s)) = Finished \<or> idle_task (snd (cleanup s)) = Cancelled"
  by (cases "idle_task (run_idle_task (cancel s))")
    (simp_all add: cleanup_def await_idle_task_def)

lemma cleanup_not_pending:
  "\<not> (idle_task s = Waiting \<and> idle_event s \<and> running s \<and> python s = Python_3_11)
   \<Longrightarrow> fst (cleanup s) \<noteq> Pending"
  by (cases "idle_task s")
    (auto simp: cleanup_def cancel_def await_idle_task_def run_idle_task_def resume_def
       loop_head_def)

lemma cleanup_done_task:
  "idle_task s = Finished \<or> idle_task s = Cancelled
   \<Longrightarrow> cleanup s = (if idle_task s = Finished then Returned else Raised CancelledError, s)"
  by (auto simp: cleanup_def cancel_def await_idle_task_def run_idle_task_def)

lemma end_frame_stopped:
  "frame = EndFrame \<or> frame = EndTaskFrame
   \<Longrightarrow> stopped (snd (process_frame s frame direction))
       \<and> callback_times (snd (process_frame s frame direction)) = callback_times s"
  by (auto simp: watchdog_defs stopped_def split: task_state.splits)

lemma process_frame_stopped:
  "stopped s \<Longrightarrow>
   snd (process_frame s frame direction) =
     (if frame = EndFrame \<or> frame = EndTaskFrame
      then (if idle_task s = Finished
            then push_frame (s\<lparr>running := False, idle_event := True\<rparr>) frame direction
            else s\<lparr>running := False, idle_event := True\<rparr>)
      else push_frame s frame direction)"
proof -
  assume st: "stopped s"
  then have d: "idle_task (s\<lparr>running := False, idle_event := True\<rparr>) = Finished
      \<or> idle_task (s\<lparr>running := False, idle_event := True\<rparr>) = Cancelled"
    by (simp add: stopped_def)
  from st have nr: "\<not> running s" by (simp add: stopped_def)
  show ?thesis
    using nr st
    by (simp add: process_frame_def cleanup_done_task [OF d] push_frame_def stopped_def)
qed

lemma step_stopped:
  "stopped s
   \<Longrightarrow> stopped (step s ev) \<and> callback_times (step s ev) = callback_times s
       \<and> interrupted (step s ev) = interrupted s"
proof (cases ev)
  case (Frame frame direction)
  assume st: "stopped s"
  show ?thesis
    using st unfolding Frame step.simps process_frame_stopped [OF st]
    by (auto simp: stopped_def run_idle_task_def push_frame_def)
next
  case Tick
  assume st: "stopped s"
  then show ?thesis
    unfolding Tick step.simps
    by (auto simp: stopped_def run_idle_task_def)
qed

lemma run_stopped:
  "stopped s
   \<Longrightarrow> stopped (run s evs) \<and> callback_times (run s evs) = callback_times s
       \<and> interrupted (run s evs) = interrupted s"
  unfolding run_def
  by (induction evs arbitrary: s) (auto simp: step_stopped)

lemma stopped_ignores_activity:
  "stopped s \<Longrightarrow> activity frame
   \<Longrightarrow> process_frame s frame direction = (Returned, push_frame s frame direction)"
  by (auto simp: watchdog_defs stopped_def activity_def)

text \<open>
  C7. While the processor is running, processing a frame leaves the interrupted flag true
  for UserStartedSpeaking, false for UserStoppedSpeaking and as it was for every other
  frame, BotSpeaking among them. Each of the three activity frames sets the idle event, and
  at its next turn a waiting idle task starts a new wait from zero with the event cleared.
\<close>

theorem process_frame_interrupted_flag:
  "running s \<Longrightarrow>
   interrupted (snd (process_frame s frame direction)) =
     (if frame = UserStartedSpeakingFrame then True
      else if frame = UserStoppedSpeakingFrame then False
      else interrupted s)
   \<and> (activity frame \<longrightarrow> idle_event (snd (process_frame s frame direction)))
   \<and> (activity frame \<and> idle_task s = Waiting \<and> \<not> must_cancel s \<longrightarrow>
        idle_task (step s (Frame frame direction)) = Waiting
        \<and> waited (step s (Frame frame direction)) = 0
        \<and> \<not> idle_event (step s (Frame frame direction)))"
  by (auto simp: watchdog_defs activity_def split: task_state.splits)

theorem process_frame_interrupted_flag_witness:
  "running (run (run_idle_task (UserIdleProcessor Python_3_11 3)) [Tick, Tick])
   \<and> interrupted (snd (process_frame (run (run_idle_task (UserIdleProcessor Python_3_11 3)) [Tick, Tick])
         UserStartedSpeakingFrame DOWNSTREAM))
   \<and> waited (step (run (run_idle_task (UserIdleProcessor Python_3_11 3)) [Tick, Tick])
         (Frame BotSpeakingFrame DOWNSTREAM)) = 0
   \<and> \<not> interrupted (step (run (run_idle_task (UserIdleProcessor Python_3_11 3)) [Tick, Tick])
         (Frame BotSpeakingFrame DOWNSTREAM))"
proof -
  let ?s = "run (run_idle_task (UserIdleProcessor Python_3_11 3)) [Tick, Tick]"
  have r: "running ?s"
    by code_simp
  have w: "idle_task ?s = Waiting \<and> \<not> must_cancel ?s \<and> \<not> interrupted ?s"
    by code_simp
  have b: "\<not> interrupted (step ?s (Frame BotSpeakingFrame DOWNSTREAM))"
    by code_simp
  from process_frame_interrupted_flag [OF r, of UserStartedSpeakingFrame DOWNSTREAM]
    process_frame_interrupted_flag [OF r, of BotSpeakingFrame DOWNSTREAM] r w b
  show ?thesis by (simp add: activity_def)
qed

text \<open>
  C8. Once an End or EndTask frame has been processed, whatever the state before: the
  callback has not been called during that processing and is not called in any run that
  follows; in every state of such a run an activity frame is only passed on, so that the
  interrupted flag, the idle event and the wait stay as they are; and whenever \<open>cleanup\<close>
  comes back to its caller, by return or by exception, the idle task is done.
\<close>

theorem end_frame_stops_watchdog:
  "frame = EndFrame \<or> frame = EndTaskFrame \<Longrightarrow>
   callback_times (run (snd (process_frame s frame direction)) evs) = callback_times s
   \<and> (activity act \<longrightarrow>
        process_frame (run (snd (process_frame s frame direction)) evs) act d =
          (Returned, push_frame (run (snd (process_frame s frame direction)) evs) act d))
   \<and> (fst (cleanup x) \<noteq> Pending \<longrightarrow>
        idle_task (snd (cleanup x)) = Finished \<or> idle_task (snd (cleanup x)) = Cancelled)"
proof -
  assume f: "frame = EndFrame \<or> frame = EndTaskFrame"
  let ?s' = "snd (process_frame s frame direction)"
  from end_frame_stopped [OF f] have st: "stopped ?s'" and ct: "callback_times ?s' = callback_times s"
    by simp_all
  from run_stopped [OF st] have st': "stopped (run ?s' evs)"
    and ct': "callback_times (run ?s' evs) = callback_times ?s'"
    by simp_all
  from ct ct' stopped_ignores_activity [OF st'] cleanup_ends_task [of x]
  show ?thesis by simp
qed

theorem end_frame_stops_watchdog_witness:
  "(EndFrame = EndFrame \<or> EndFrame = EndTaskFrame)
   \<and> callback_times (run (run_idle_task (UserIdleProcessor Python_3_11 2)) [Tick, Tick, Tick]) = [2]
   \<and> callback_times
        (run (snd (process_frame (run (run_idle_task (UserIdleProcessor Python_3_11 2)) [Tick, Tick, Tick])
                     EndFrame DOWNSTREAM))
           [Tick, Tick, Frame UserStartedSpeakingFrame DOWNSTREAM, Tick, Tick, Tick]) = [2]
   \<and> activity UserStartedSpeakingFrame
   \<and> fst (cleanup (run_idle_task (UserIdleProcessor Python_3_11 2))) \<noteq> Pending
   \<and> idle_task (snd (cleanup (run_idle_task (UserIdleProcessor Python_3_11 2)))) = Finished"
proof -
  let ?s = "run (run_idle_task (UserIdleProcessor Python_3_11 2)) [Tick, Tick, Tick]"
  have before: "callback_times ?s = [2]"
    by code_simp
  have c: "fst (cleanup (run_idle_task (UserIdleProcessor Python_3_11 2))) = Returned
           \<and> idle_task (snd (cleanup (run_idle_task (UserIdleProcessor Python_3_11 2)))) = Finished"
    by code_simp
  from end_frame_stops_watchdog
    [of EndFrame ?s DOWNSTREAM
        "[Tick, Tick, Frame UserStartedSpeakingFrame DOWNSTREAM, Tick, Tick, Tick]"
        UserStartedSpeakingFrame DOWNSTREAM "run_idle_task (UserIdleProcessor Python_3_11 2)"]
    before c
  show ?thesis by (simp add: activity_def)
qed

text \<open>
  C9. \<open>cleanup\<close> on a processor whose idle task has not had its first step: \<open>cancel\<close>
  leaves the request, the task ends as cancelled without entering the coroutine, and
  \<open>await self._idle_task\<close> raises \<open>CancelledError\<close>, in the first call and again in the
  second.
\<close>

theorem cleanup_twice_before_first_step:
  "cleanup (UserIdleProcessor py 5) =
     (Raised CancelledError, (UserIdleProcessor py 5)\<lparr>idle_task := Cancelled\<rparr>)
   \<and> cleanup (snd (cleanup (UserIdleProcessor py 5))) =
     (Raised CancelledError, (UserIdleProcessor py 5)\<lparr>idle_task := Cancelled\<rparr>)"
  by (simp add: watchdog_defs UserIdleProcessor_def)

text \<open>
  For a processor whose idle task is waiting with no event pending, or has finished, two
  calls of \<open>cleanup\<close> in succession both return, and the second changes nothing.
\<close>

lemma cleanup_twice_after_first_step:
  "idle_task s = Waiting \<and> \<not> idle_event s \<or> idle_task s = Finished
   \<Longrightarrow> fst (cleanup s) = Returned
       \<and> cleanup (snd (cleanup s)) = (Returned, snd (cleanup s))"
proof -
  assume "idle_task s = Waiting \<and> \<not> idle_event s \<or> idle_task s = Finished"
  then have first: "fst (cleanup s) = Returned \<and> idle_task (snd (cleanup s)) = Finished"
    by (auto simp: cleanup_def cancel_def await_idle_task_def run_idle_task_def resume_def)
  then have "cleanup (snd (cleanup s)) = (Returned, snd (cleanup s))"
    by (simp add: cleanup_done_task)
  with first show ?thesis by simp
qed

end
